theory Spec2Isabelle
  imports Complex_Main "HOL-Library.Word"
begin

section \<open>Python values and exceptions\<close>

text \<open>
  The messages of the \<open>ValueError\<close>s raised by the application are kept as structured
  values (the numbers that the f-string of the source prints), so that no float
  formatting has to be modelled.
\<close>

datatype value_error =
    ImageSizeExceeds real int          \<comment> \<open>"Image size {size_mb}MB exceeds limit of {MAX}MB"\<close>
  | ImageDimensionExceeds nat nat int  \<comment> \<open>"Image {width}x{height} exceeds max dimension {MAX}"\<close>
  | BatchSizeExceeds nat int           \<comment> \<open>"Batch size {n} exceeds max {MAX}"\<close>
  | InvalidJSON                        \<comment> \<open>"Invalid JSON format for text_prompts" (or "bounding_boxes")\<close>
  | LengthMismatch nat nat             \<comment> \<open>"Number of images ({n}) must match number of prompts ({m})"\<close>
  | UnpackError                        \<comment> \<open>tuple unpacking of a sequence of the wrong length\<close>
  | LibraryValueError string           \<comment> \<open>a \<open>ValueError\<close> raised inside an external library\<close>

datatype py_error =
    ValueError value_error
  | IndexError
  | ZeroDivisionError
  | OtherException string              \<comment> \<open>any other exception class, raised by a library\<close>

section \<open>mask\_utils.py\<close>

text \<open>
  A mask (\<open>msk\<close> below) is a tensor of shape \<open>[H, W]\<close>, a list of rows; the docstrings
  fix its values to 0.0 or 1.0. A contour is OpenCV's array of shape \<open>(N, 1, 2)\<close>: a list
  of integer points.
\<close>

type_synonym mask = "real list list"
type_synonym point = "int \<times> int"
type_synonym contour = "point list"
type_synonym polygon = "int list list"

text \<open>
  OpenCV is an external library. Its two entry points used by the code are parameters of
  the model: \<open>findContours\<close> (called with \<open>RETR_TREE\<close> and \<open>CHAIN_APPROX_SIMPLE\<close>; the
  hierarchy it also returns is never read) and \<open>approxPolyDP\<close>, which may raise
  (\<open>cv2.error\<close>, as it does for a negative tolerance).
\<close>

record cv2 =
  findContours :: "8 word list list \<Rightarrow> contour list"
  approxPolyDP :: "contour \<Rightarrow> real \<Rightarrow> bool \<Rightarrow> py_error + contour"

text \<open>
  torch is external too. \<open>tensor_sum\<close> is \<open>mask.sum().item()\<close>: the sum of a tensor's
  values as torch computes it in the tensor's own dtype, which for a float tensor is a
  rounded sum. The other three are \<open>.cpu().numpy()\<close> on the tensors that the visualizer
  receives; each may raise.
\<close>

record torch =
  tensor_sum :: "real list list \<Rightarrow> real"
  masks_numpy :: "real list list list \<Rightarrow> py_error + real list list list"
  boxes_numpy :: "real list list \<Rightarrow> py_error + real list list"
  scores_numpy :: "real list \<Rightarrow> py_error + real list"

text \<open>\<open>(mask_np * 255).astype(np.uint8)\<close>: truncation towards zero, then wrap-around.\<close>

definition trunc :: "real \<Rightarrow> int" where
  "trunc x = (if 0 \<le> x then \<lfloor>x\<rfloor> else \<lceil>x\<rceil>)"

definition astype_uint8 :: "real \<Rightarrow> 8 word" where
  "astype_uint8 v = word_of_int (trunc v)"

definition mask_uint8 :: "mask \<Rightarrow> 8 word list list" where
  "mask_uint8 mask_np = map (map (\<lambda>v. astype_uint8 (v * 255))) mask_np"

text \<open>
  \<open>simplified.squeeze().tolist()\<close> on an array of shape \<open>(N, 1, 2)\<close>: for \<open>N = 1\<close> both
  unit axes go and the result is the flat list \<open>[x, y]\<close>; otherwise it is a list of
  \<open>[x, y]\<close> pairs (the empty list for \<open>N = 0\<close>).
\<close>

datatype pylist = Flat "int list" | Nested "int list list"

fun squeeze_tolist :: "contour \<Rightarrow> pylist" where
  "squeeze_tolist [] = Nested []"
| "squeeze_tolist [(x, y)] = Flat [x, y]"
| "squeeze_tolist pts = Nested (map (\<lambda>(x, y). [x, y]) pts)"

text \<open>
  \<open>if isinstance(polygon[0], (int, float)): polygon = [polygon]\<close>; \<open>polygon[0]\<close> raises
  \<open>IndexError\<close> on an empty list.
\<close>

fun ensure_list_of_lists :: "pylist \<Rightarrow> py_error + polygon" where
  "ensure_list_of_lists (Flat []) = Inl IndexError"
| "ensure_list_of_lists (Flat (v # vs)) = Inr [v # vs]"
| "ensure_list_of_lists (Nested []) = Inl IndexError"
| "ensure_list_of_lists (Nested (p # ps)) = Inr (p # ps)"

text \<open>The body of \<open>for contour in contours\<close>, with the list \<open>polygons\<close> as accumulator.\<close>

fun contours_loop :: "cv2 \<Rightarrow> real \<Rightarrow> contour list \<Rightarrow> polygon list \<Rightarrow> py_error + polygon list" where
  "contours_loop cv simplify_tolerance [] polygons = Inr polygons"
| "contours_loop cv simplify_tolerance (contour # rest) polygons =
     (if length contour < 3 then contours_loop cv simplify_tolerance rest polygons
      else
        let epsilon = simplify_tolerance
        in case approxPolyDP cv contour epsilon True of
             Inl e \<Rightarrow> Inl e
           | Inr simplified \<Rightarrow>
               (case ensure_list_of_lists (squeeze_tolist simplified) of
                  Inl e \<Rightarrow> Inl e
                | Inr polygon \<Rightarrow>
                    if length polygon \<ge> 3
                    then contours_loop cv simplify_tolerance rest (polygons @ [polygon])
                    else contours_loop cv simplify_tolerance rest polygons))"

definition mask_to_polygons :: "cv2 \<Rightarrow> mask \<Rightarrow> real \<Rightarrow> py_error + polygon list" where
  "mask_to_polygons cv msk simplify_tolerance =
     (let contours = findContours cv (mask_uint8 msk)
      in contours_loop cv simplify_tolerance contours [])"

text \<open>\<open>float(mask.sum().item())\<close>\<close>

definition calculate_mask_area :: "torch \<Rightarrow> mask \<Rightarrow> real" where
  "calculate_mask_area tor msk = tensor_sum tor msk"

record mask_polygon =
  polygons :: "polygon list"
  area :: real

fun masks_loop ::
  "torch \<Rightarrow> cv2 \<Rightarrow> real \<Rightarrow> mask list \<Rightarrow> mask_polygon list \<Rightarrow> py_error + mask_polygon list" where
  "masks_loop tor cv simplify_tolerance [] polygon_data = Inr polygon_data"
| "masks_loop tor cv simplify_tolerance (msk # rest) polygon_data =
     (case mask_to_polygons cv msk simplify_tolerance of
        Inl e \<Rightarrow> Inl e
      | Inr polys \<Rightarrow>
          let a = calculate_mask_area tor msk
          in masks_loop tor cv simplify_tolerance rest
               (polygon_data @ [\<lparr>polygons = polys, area = a\<rparr>]))"

definition masks_to_polygon_data ::
  "torch \<Rightarrow> cv2 \<Rightarrow> mask list \<Rightarrow> real \<Rightarrow> py_error + mask_polygon list" where
  "masks_to_polygon_data tor cv masks simplify_tolerance = masks_loop tor cv simplify_tolerance masks []"

section \<open>config.py\<close>

record settings =
  MAX_IMAGE_SIZE_MB :: int
  MAX_BATCH_SIZE :: int
  MAX_IMAGE_DIMENSION :: int
  VISUALIZATION_FORMAT :: string
  VISUALIZATION_QUALITY :: int

definition default_settings :: settings where
  "default_settings =
     \<lparr>MAX_IMAGE_SIZE_MB = 10, MAX_BATCH_SIZE = 10, MAX_IMAGE_DIMENSION = 4096,
      VISUALIZATION_FORMAT = ''PNG'', VISUALIZATION_QUALITY = 95\<rparr>"

section \<open>visualizer.py\<close>

text \<open>
  A PIL image is its mode, its size \<open>(width, height)\<close> and an opaque raster. PIL and
  matplotlib are external: the calls the code makes are the fields of \<open>pil\<close>. Opening
  (\<open>Image.open\<close>, which reads the header only), mode conversion (\<open>image.convert\<close>, which
  decodes the pixel data), encoding (\<open>image.save\<close>), the two-image operations and the
  colormap lookup may raise; the in-place drawing calls return the updated image.
\<close>

type_synonym bytes = "8 word list"

record pil_image =
  im_mode :: string
  im_size :: "nat \<times> nat"
  im_data :: "nat list"

record pil =
  Image_open :: "bytes \<Rightarrow> py_error + pil_image"
  Image_convert :: "pil_image \<Rightarrow> string \<Rightarrow> py_error + pil_image"
  Image_save :: "pil_image \<Rightarrow> string \<Rightarrow> int option \<Rightarrow> py_error + bytes"
  Image_fromarray :: "8 word list list \<Rightarrow> pil_image"
  Image_new :: "string \<Rightarrow> nat \<times> nat \<Rightarrow> int list \<Rightarrow> pil_image"
  Image_point :: "pil_image \<Rightarrow> (int \<Rightarrow> int) \<Rightarrow> pil_image"
  Image_putalpha :: "pil_image \<Rightarrow> pil_image \<Rightarrow> py_error + pil_image"
  Image_alpha_composite :: "pil_image \<Rightarrow> pil_image \<Rightarrow> py_error + pil_image"
  ImageDraw_rectangle :: "pil_image \<Rightarrow> real list \<Rightarrow> int list \<Rightarrow> nat \<Rightarrow> pil_image"
  ImageDraw_text :: "pil_image \<Rightarrow> real \<times> real \<Rightarrow> string \<Rightarrow> int list \<Rightarrow> pil_image"
  get_cmap_resampled :: "string \<Rightarrow> nat \<Rightarrow> py_error + (nat \<Rightarrow> real list)"
  format_2f :: "real \<Rightarrow> string"

text \<open>The loop \<open>for idx, (mask, color) in enumerate(zip(masks, colors))\<close>.\<close>

fun draw_masks_loop :: "pil \<Rightarrow> real \<Rightarrow> (mask \<times> int list) list \<Rightarrow> pil_image \<Rightarrow> py_error + pil_image" where
  "draw_masks_loop lib alpha [] image_rgba = Inr image_rgba"
| "draw_masks_loop lib alpha ((msk, color) # rest) image_rgba =
     (let mask_image = Image_fromarray lib (mask_uint8 msk);
          overlay = Image_new lib ''RGBA'' (im_size image_rgba) (color @ [0]);
          alpha_channel = Image_point lib mask_image (\<lambda>v. trunc (real_of_int v * alpha))
      in case Image_putalpha lib overlay alpha_channel of
           Inl e \<Rightarrow> Inl e
         | Inr overlay' \<Rightarrow>
             (case Image_alpha_composite lib image_rgba overlay' of
                Inl e \<Rightarrow> Inl e
              | Inr image_rgba' \<Rightarrow> draw_masks_loop lib alpha rest image_rgba'))"

text \<open>
  The loop \<open>for idx, (box, color) in enumerate(zip(boxes, colors))\<close>. Unpacking
  \<open>x1, y1, x2, y2 = box.tolist()\<close> raises \<open>ValueError\<close> unless the box has four
  entries; \<open>scores[idx]\<close> raises \<open>IndexError\<close> past the end.
\<close>

fun draw_boxes_loop :: "pil \<Rightarrow> real list option \<Rightarrow> nat \<Rightarrow> (real list \<times> int list) list \<Rightarrow> pil_image \<Rightarrow> py_error + pil_image" where
  "draw_boxes_loop lib scores_t idx [] image_rgba = Inr image_rgba"
| "draw_boxes_loop lib scores_t idx ((box, color) # rest) image_rgba =
     (case box of
        [x1, y1, x2, y2] \<Rightarrow>
          (let drawn = ImageDraw_rectangle lib image_rgba [x1, y1, x2, y2] (color @ [255]) 3
           in case scores_t of
                None \<Rightarrow> draw_boxes_loop lib scores_t (Suc idx) rest drawn
              | Some sc \<Rightarrow>
                  if idx < length sc
                  then let score_text = format_2f lib (sc ! idx);
                           labelled = ImageDraw_text lib drawn (x1, y1 - 15) score_text (color @ [255])
                       in draw_boxes_loop lib scores_t (Suc idx) rest labelled
                  else Inl IndexError)
      | _ \<Rightarrow> Inl (ValueError UnpackError))"

text \<open>
  Before it looks at the object count the function converts the image to RGBA and the
  tensors to arrays (the scores only when they are given); any of these may raise.
\<close>

definition scores_to_numpy :: "torch \<Rightarrow> real list option \<Rightarrow> py_error + real list option" where
  "scores_to_numpy tor scores_t =
     (case scores_t of
        None \<Rightarrow> Inr None
      | Some sc \<Rightarrow> (case scores_numpy tor sc of Inl e \<Rightarrow> Inl e | Inr sc_np \<Rightarrow> Inr (Some sc_np)))"

definition draw_masks_and_boxes ::
  "torch \<Rightarrow> pil \<Rightarrow> pil_image \<Rightarrow> mask list \<Rightarrow> real list list \<Rightarrow> real list option \<Rightarrow> real \<Rightarrow> string
     \<Rightarrow> bool \<Rightarrow> bool \<Rightarrow> py_error + pil_image" where
  "draw_masks_and_boxes tor lib img masks_t boxes_t scores_t alpha colormap draw_boxes draw_masks =
     (case Image_convert lib img ''RGBA'' of
        Inl e \<Rightarrow> Inl e
      | Inr image_rgba \<Rightarrow>
     (case masks_numpy tor masks_t of
        Inl e \<Rightarrow> Inl e
      | Inr masks_np \<Rightarrow>
     (case boxes_numpy tor boxes_t of
        Inl e \<Rightarrow> Inl e
      | Inr boxes_np \<Rightarrow>
     (case scores_to_numpy tor scores_t of
        Inl e \<Rightarrow> Inl e
      | Inr scores_np \<Rightarrow>
     (let n_objects = length masks_np
      in if n_objects = 0 then Inr img
         else
           (case get_cmap_resampled lib colormap n_objects of
              Inl e \<Rightarrow> Inl e
            | Inr cmap \<Rightarrow>
               (let colors = map (\<lambda>i. map (\<lambda>c. trunc (c * 255)) (take 3 (cmap i))) [0..<n_objects]
                in (case (if draw_masks then draw_masks_loop lib alpha (zip masks_np colors) image_rgba
                          else Inr image_rgba) of
                      Inl e \<Rightarrow> Inl e
                    | Inr with_masks \<Rightarrow>
                        (case (if draw_boxes then draw_boxes_loop lib scores_np 0 (zip boxes_np colors) with_masks
                               else Inr with_masks) of
                           Inl e \<Rightarrow> Inl e
                         | Inr with_boxes \<Rightarrow> Image_convert lib with_boxes ''RGB'')))))))))"

text \<open>\<open>str.upper\<close> on the ASCII letters.\<close>

definition ascii_upper :: "char \<Rightarrow> char" where
  "ascii_upper c = (let n = (of_char c :: nat) in if 97 \<le> n \<and> n \<le> 122 then char_of (n - 32) else c)"

definition upper :: "string \<Rightarrow> string" where
  "upper s = map ascii_upper s"

definition encode_image_to_bytes :: "pil \<Rightarrow> pil_image \<Rightarrow> string \<Rightarrow> int \<Rightarrow> py_error + bytes" where
  "encode_image_to_bytes lib img format quality =
     (if upper format = ''JPEG'' then Image_save lib img ''JPEG'' (Some quality)
      else Image_save lib img ''PNG'' None)"

definition create_visualization ::
  "settings \<Rightarrow> torch \<Rightarrow> pil \<Rightarrow> pil_image \<Rightarrow> mask list \<Rightarrow> real list list \<Rightarrow> real list option \<Rightarrow> real
     \<Rightarrow> bool \<Rightarrow> bool \<Rightarrow> py_error + bytes" where
  "create_visualization st tor lib img masks_t boxes_t scores_t alpha draw_boxes draw_masks =
     (case draw_masks_and_boxes tor lib img masks_t boxes_t scores_t alpha ''rainbow'' draw_boxes draw_masks of
        Inl e \<Rightarrow> Inl e
      | Inr viz_image \<Rightarrow>
          encode_image_to_bytes lib viz_image (VISUALIZATION_FORMAT st) (VISUALIZATION_QUALITY st))"

section \<open>schemas/sam3.py\<close>

text \<open>
  \<open>InferenceResult\<close> and \<open>BatchImageResult\<close> share five fields; neither schema has a
  field for an error.
\<close>

record detection_fields =
  num_objects :: nat
  boxes :: "real list list"
  scores :: "real list"
  masks :: "mask_polygon list"
  visualization_base64 :: "string option"

record inference_result = detection_fields +
  processing_time_ms :: real

record batch_image_result = detection_fields +
  image_index :: nat

record batch_inference_result =
  total_images :: nat
  results :: "batch_image_result list"
  total_processing_time_ms :: real
  average_time_per_image_ms :: real

section \<open>inference.py\<close>

text \<open>
  The model adapter (the \<open>transformers\<close> processor and model) is external. Each of its
  three calls may raise. What the processor is called with depends on the entry point.
  One image's post-processed result is the dict with keys \<open>scores\<close>, \<open>boxes\<close>, \<open>masks\<close>.
\<close>

datatype processor_args =
    Text_prompt pil_image string
  | Box_prompt pil_image "int list list list" "int list list"
  | Batch_prompt "pil_image list" "string option list"

record seg_result =
  r_scores :: "real list"
  r_boxes :: "real list list"
  r_masks :: "mask list"

record ('i, 'o) sam3 =
  processor :: "processor_args \<Rightarrow> py_error + 'i"
  model :: "'i \<Rightarrow> py_error + 'o"
  original_sizes :: "'i \<Rightarrow> (nat \<times> nat) list"
  post_process_instance_segmentation ::
    "'o \<Rightarrow> real \<Rightarrow> real \<Rightarrow> (nat \<times> nat) list \<Rightarrow> py_error + seg_result list"

text \<open>
  Everything a request reaches outside the repository: the libraries, \<open>json.loads\<close>
  (on the two shapes the routers accept) and the readings of \<open>time.perf_counter\<close> in
  call order.
\<close>

record ('i, 'o) env =
  torch_lib :: torch
  cv_lib :: cv2
  pil_lib :: pil
  sam3_lib :: "('i, 'o) sam3"
  json_loads_prompts :: "string \<Rightarrow> string option list option"
  json_loads_boxes :: "string \<Rightarrow> int list list option"
  perf_counter :: "nat \<Rightarrow> real"

record upload_file =
  filename :: string
  file_content :: bytes

text \<open>
  \<open>base64.b64encode(viz_bytes).decode("utf-8")\<close>: the standard alphabet, three bytes to
  four characters, \<open>=\<close> padding.
\<close>

definition b64_char :: "nat \<Rightarrow> char" where
  "b64_char k = ''ABCDEFGHIJKLMNOPQRSTUVWXYZabcdefghijklmnopqrstuvwxyz0123456789+/'' ! (k mod 64)"

fun b64encode :: "bytes \<Rightarrow> string" where
  "b64encode [] = []"
| "b64encode [a] =
     (let n = unat a
      in [b64_char (n div 4), b64_char ((n mod 4) * 16), CHR ''='', CHR ''=''])"
| "b64encode [a, b] =
     (let n = unat a * 256 + unat b
      in [b64_char (n div 1024), b64_char (n div 16), b64_char ((n mod 16) * 4), CHR ''=''])"
| "b64encode (a # b # c # rest) =
     (let n = unat a * 65536 + unat b * 256 + unat c
      in [b64_char (n div 262144), b64_char (n div 4096), b64_char (n div 64), b64_char n]
         @ b64encode rest)"

text \<open>\<open>round(x, ndigits)\<close>, ties to even, on exact values.\<close>

definition py_round :: "real \<Rightarrow> nat \<Rightarrow> real" where
  "py_round x ndigits =
     (let s = x * 10 ^ ndigits; f = \<lfloor>s\<rfloor>; d = s - of_int f;
          n = (if d < 1 / 2 then f else if d > 1 / 2 then f + 1 else if even f then f else f + 1)
      in of_int n / 10 ^ ndigits)"

text \<open>\<open>if image.mode != "RGB": image = image.convert("RGB")\<close>\<close>

definition convert_to_rgb :: "pil \<Rightarrow> pil_image \<Rightarrow> py_error + pil_image" where
  "convert_to_rgb lib opened =
     (if im_mode opened \<noteq> ''RGB'' then Image_convert lib opened ''RGB'' else Inr opened)"

definition load_image_from_upload :: "settings \<Rightarrow> pil \<Rightarrow> upload_file \<Rightarrow> py_error + pil_image" where
  "load_image_from_upload st lib file =
     (let content = file_content file;
          size_mb = real (length content) / (1024 * 1024)
      in if size_mb > real_of_int (MAX_IMAGE_SIZE_MB st)
         then Inl (ValueError (ImageSizeExceeds size_mb (MAX_IMAGE_SIZE_MB st)))
         else
           case Image_open lib content of
             Inl e \<Rightarrow> Inl e
           | Inr opened \<Rightarrow>
               (case convert_to_rgb lib opened of
                  Inl e \<Rightarrow> Inl e
                | Inr img \<Rightarrow>
                    (let (width, height) = im_size img
                     in if int width > MAX_IMAGE_DIMENSION st \<or> int height > MAX_IMAGE_DIMENSION st
                        then Inl (ValueError (ImageDimensionExceeds width height (MAX_IMAGE_DIMENSION st)))
                        else Inr img)))"

text \<open>
  The three adapter calls that every entry point makes in the same order
  (\<open>self.processor(...)\<close>, \<open>self.model(**inputs)\<close>,
  \<open>post_process_instance_segmentation(...)\<close>), with the calls made so far as a trace.
\<close>

datatype adapter_event = Processor_called | Model_called | Post_process_called

definition run_adapter ::
  "('i, 'o) sam3 \<Rightarrow> processor_args \<Rightarrow> real \<Rightarrow> real \<Rightarrow> (py_error + seg_result list) \<times> adapter_event list" where
  "run_adapter sam args threshold mask_threshold =
     (case processor sam args of
        Inl e \<Rightarrow> (Inl e, [Processor_called])
      | Inr inputs \<Rightarrow>
          (case model sam inputs of
             Inl e \<Rightarrow> (Inl e, [Processor_called, Model_called])
           | Inr outputs \<Rightarrow>
               (post_process_instance_segmentation sam outputs threshold mask_threshold
                  (original_sizes sam inputs),
                [Processor_called, Model_called, Post_process_called])))"

text \<open>
  Lines 153 to 186 of \<open>inference_text\<close>, repeated verbatim as lines 244 to 277 of
  \<open>inference_bbox\<close>: from one image's \<open>results\<close> to the response.
\<close>

definition prepare_response ::
  "settings \<Rightarrow> ('i, 'o) env \<Rightarrow> real \<Rightarrow> pil_image \<Rightarrow> seg_result \<Rightarrow> bool \<Rightarrow> py_error + inference_result" where
  "prepare_response st env start_time img res return_visualization =
     (let n = length (r_scores res);
          boxes_list = r_boxes res;
          scores_list = r_scores res
      in case masks_to_polygon_data (torch_lib env) (cv_lib env) (r_masks res) (3 / 2) of
           Inl e \<Rightarrow> Inl e
         | Inr masks_polygon \<Rightarrow>
             (let time_ms = (perf_counter env 1 - start_time) * 1000;
                  response = \<lparr>num_objects = n, boxes = boxes_list, scores = scores_list,
                              masks = masks_polygon, visualization_base64 = None,
                              processing_time_ms = py_round time_ms 2\<rparr>
              in if return_visualization \<and> n > 0
                 then (case create_visualization st (torch_lib env) (pil_lib env) img (r_masks res) (r_boxes res)
                              (Some (r_scores res)) (1 / 2) True True of
                         Inl e \<Rightarrow> Inl e
                       | Inr viz_bytes \<Rightarrow>
                           Inr (response\<lparr>visualization_base64 := Some (b64encode viz_bytes)\<rparr>))
                 else Inr response))"

definition inference_text ::
  "settings \<Rightarrow> ('i, 'o) env \<Rightarrow> upload_file \<Rightarrow> string \<Rightarrow> real \<Rightarrow> real \<Rightarrow> bool
     \<Rightarrow> (py_error + inference_result) \<times> adapter_event list" where
  "inference_text st env image_file text_prompt threshold mask_threshold return_visualization =
     (let start_time = perf_counter env 0
      in case load_image_from_upload st (pil_lib env) image_file of
           Inl e \<Rightarrow> (Inl e, [])
         | Inr img \<Rightarrow>
             (case run_adapter (sam3_lib env) (Text_prompt img text_prompt) threshold mask_threshold of
                (Inl e, tr) \<Rightarrow> (Inl e, tr)
              | (Inr [], tr) \<Rightarrow> (Inl IndexError, tr)
              | (Inr (res # _), tr) \<Rightarrow>
                  (prepare_response st env start_time img res return_visualization, tr)))"

definition inference_bbox ::
  "settings \<Rightarrow> ('i, 'o) env \<Rightarrow> upload_file \<Rightarrow> int list list \<Rightarrow> int list \<Rightarrow> real \<Rightarrow> real \<Rightarrow> bool
     \<Rightarrow> (py_error + inference_result) \<times> adapter_event list" where
  "inference_bbox st env image_file bounding_boxes box_labels threshold mask_threshold return_visualization =
     (let start_time = perf_counter env 0
      in case load_image_from_upload st (pil_lib env) image_file of
           Inl e \<Rightarrow> (Inl e, [])
         | Inr img \<Rightarrow>
             (case run_adapter (sam3_lib env) (Box_prompt img [bounding_boxes] [box_labels])
                     threshold mask_threshold of
                (Inl e, tr) \<Rightarrow> (Inl e, tr)
              | (Inr [], tr) \<Rightarrow> (Inl IndexError, tr)
              | (Inr (res # _), tr) \<Rightarrow>
                  (prepare_response st env start_time img res return_visualization, tr)))"

text \<open>The loop \<open>for file in image_files\<close> that loads every image before any model call.\<close>

fun load_images_loop :: "settings \<Rightarrow> pil \<Rightarrow> upload_file list \<Rightarrow> pil_image list \<Rightarrow> py_error + pil_image list" where
  "load_images_loop st lib [] images = Inr images"
| "load_images_loop st lib (file # rest) images =
     (case load_image_from_upload st lib file of
        Inl e \<Rightarrow> Inl e
      | Inr img \<Rightarrow> load_images_loop st lib rest (images @ [img]))"

text \<open>The loop \<open>for idx, (image, result) in enumerate(zip(images, results))\<close>.\<close>

fun batch_loop ::
  "settings \<Rightarrow> ('i, 'o) env \<Rightarrow> bool \<Rightarrow> nat \<Rightarrow> (pil_image \<times> seg_result) list \<Rightarrow> batch_image_result list
     \<Rightarrow> py_error + batch_image_result list" where
  "batch_loop st env return_visualizations idx [] batch_results = Inr batch_results"
| "batch_loop st env return_visualizations idx ((img, res) # rest) batch_results =
     (let n = length (r_scores res);
          boxes_list = r_boxes res;
          scores_list = r_scores res
      in case masks_to_polygon_data (torch_lib env) (cv_lib env) (r_masks res) (3 / 2) of
           Inl e \<Rightarrow> Inl e
         | Inr masks_polygon \<Rightarrow>
             (let result_item = \<lparr>num_objects = n, boxes = boxes_list, scores = scores_list,
                                 masks = masks_polygon, visualization_base64 = None,
                                 image_index = idx\<rparr>
              in if return_visualizations \<and> n > 0
                 then (case create_visualization st (torch_lib env) (pil_lib env) img (r_masks res) (r_boxes res)
                              (Some (r_scores res)) (1 / 2) True True of
                         Inl e \<Rightarrow> Inl e
                       | Inr viz_bytes \<Rightarrow>
                           batch_loop st env return_visualizations (Suc idx) rest
                             (batch_results @
                              [result_item\<lparr>visualization_base64 := Some (b64encode viz_bytes)\<rparr>]))
                 else batch_loop st env return_visualizations (Suc idx) rest
                        (batch_results @ [result_item])))"

definition inference_batch ::
  "settings \<Rightarrow> ('i, 'o) env \<Rightarrow> upload_file list \<Rightarrow> string option list \<Rightarrow> real \<Rightarrow> real \<Rightarrow> bool
     \<Rightarrow> (py_error + batch_inference_result) \<times> adapter_event list" where
  "inference_batch st env image_files text_prompts threshold mask_threshold return_visualizations =
     (let start_time = perf_counter env 0
      in if int (length image_files) > MAX_BATCH_SIZE st
         then (Inl (ValueError (BatchSizeExceeds (length image_files) (MAX_BATCH_SIZE st))), [])
         else
           case load_images_loop st (pil_lib env) image_files [] of
             Inl e \<Rightarrow> (Inl e, [])
           | Inr images \<Rightarrow>
               (case run_adapter (sam3_lib env) (Batch_prompt images text_prompts)
                       threshold mask_threshold of
                  (Inl e, tr) \<Rightarrow> (Inl e, tr)
                | (Inr rs, tr) \<Rightarrow>
                    (case batch_loop st env return_visualizations 0 (zip images rs) [] of
                       Inl e \<Rightarrow> (Inl e, tr)
                     | Inr batch_results \<Rightarrow>
                         (let total_time_ms = (perf_counter env 1 - start_time) * 1000
                          in if length image_files = 0 then (Inl ZeroDivisionError, tr)
                             else
                               (Inr \<lparr>total_images = length image_files,
                                     results = batch_results,
                                     total_processing_time_ms = py_round total_time_ms 2,
                                     average_time_per_image_ms =
                                       py_round (total_time_ms / real (length image_files)) 2\<rparr>,
                                tr)))))"

section \<open>routers/sam3.py\<close>

text \<open>
  An endpoint answers 200 with the result, or raises \<open>HTTPException\<close>: status 400 with
  \<open>str(e)\<close> for a \<open>ValueError\<close>, status 500 with a fixed text for any other exception.
  A request that lacks a parameter declared as required never reaches the endpoint's
  body: FastAPI raises \<open>RequestValidationError\<close>, which the handler of \<open>main.py\<close> answers
  with status 422. The trace of adapter calls is passed through.
\<close>

datatype detail = Str_of value_error | Fixed_text string

datatype 'a http_response =
    Response_200 'a
  | HTTPException nat detail
  | Validation_error_response nat string

text \<open>
  The two \<open>except\<close> clauses that close every endpoint: \<open>except ValueError as e\<close> answers
  400 with \<open>str(e)\<close>, \<open>except Exception\<close> answers 500 with the endpoint's fixed text.
\<close>

fun except_clauses :: "string \<Rightarrow> py_error \<Rightarrow> 'a http_response" where
  "except_clauses fixed (ValueError m) = HTTPException 400 (Str_of m)"
| "except_clauses fixed e = HTTPException 500 (Fixed_text fixed)"

definition router_inference_text ::
  "settings \<Rightarrow> ('i, 'o) env \<Rightarrow> upload_file \<Rightarrow> string \<Rightarrow> real \<Rightarrow> real \<Rightarrow> bool
     \<Rightarrow> inference_result http_response \<times> adapter_event list" where
  "router_inference_text st env img text_prompt threshold mask_threshold return_visualization =
     (case inference_text st env img text_prompt threshold mask_threshold return_visualization of
        (Inr result, tr) \<Rightarrow> (Response_200 result, tr)
      | (Inl e, tr) \<Rightarrow> (except_clauses ''Inference failed'' e, tr))"

text \<open>
  \<open>[[b[0], b[1], b[2], b[3]] for b in boxes_data]\<close> raises \<open>IndexError\<close> at the first
  entry with fewer than four numbers.
\<close>

fun extract_boxes :: "int list list \<Rightarrow> py_error + int list list" where
  "extract_boxes [] = Inr []"
| "extract_boxes ((b0 # b1 # b2 # b3 # _) # rest) =
     (case extract_boxes rest of Inl e \<Rightarrow> Inl e | Inr bs \<Rightarrow> Inr ([b0, b1, b2, b3] # bs))"
| "extract_boxes (_ # rest) = Inl IndexError"

definition extract_labels :: "int list list \<Rightarrow> int list" where
  "extract_labels boxes_data = map (\<lambda>b. if length b > 4 then b ! 4 else 1) boxes_data"

definition router_inference_bbox ::
  "settings \<Rightarrow> ('i, 'o) env \<Rightarrow> upload_file \<Rightarrow> string \<Rightarrow> real \<Rightarrow> real \<Rightarrow> bool
     \<Rightarrow> inference_result http_response \<times> adapter_event list" where
  "router_inference_bbox st env img bounding_boxes threshold mask_threshold return_visualization =
     (case json_loads_boxes env bounding_boxes of
        None \<Rightarrow> (HTTPException 400 (Str_of InvalidJSON), [])
      | Some boxes_data \<Rightarrow>
          (case extract_boxes boxes_data of
             Inl e \<Rightarrow> (except_clauses ''Inference failed'' e, [])
           | Inr bs \<Rightarrow>
               (case inference_bbox st env img bs (extract_labels boxes_data)
                       threshold mask_threshold return_visualization of
                  (Inr result, tr) \<Rightarrow> (Response_200 result, tr)
                | (Inl e, tr) \<Rightarrow> (except_clauses ''Inference failed'' e, tr))))"

text \<open>
  \<open>images: list[UploadFile] = File(...)\<close> is required: a request without any image file
  is answered 422 before the body runs.
\<close>

definition router_inference_batch ::
  "settings \<Rightarrow> ('i, 'o) env \<Rightarrow> upload_file list \<Rightarrow> string \<Rightarrow> real \<Rightarrow> real \<Rightarrow> bool
     \<Rightarrow> batch_inference_result http_response \<times> adapter_event list" where
  "router_inference_batch st env images text_prompts threshold mask_threshold return_visualizations =
     (if images = [] then (Validation_error_response 422 ''Request validation failed'', [])
      else
        case json_loads_prompts env text_prompts of
          None \<Rightarrow> (HTTPException 400 (Str_of InvalidJSON), [])
        | Some prompts_list \<Rightarrow>
            if length images \<noteq> length prompts_list
            then (HTTPException 400 (Str_of (LengthMismatch (length images) (length prompts_list))), [])
            else
              (case inference_batch st env images prompts_list threshold mask_threshold
                      return_visualizations of
                 (Inr result, tr) \<Rightarrow> (Response_200 result, tr)
               | (Inl e, tr) \<Rightarrow> (except_clauses ''Batch inference failed'' e, tr)))"

section \<open>A concrete environment\<close>

text \<open>
  Concrete stand-ins for the external libraries, used to run the model on inputs.
  \<open>sample_findContours\<close> traces nothing on an all-background image and the four corners
  of the image otherwise, which is what OpenCV returns for an all-foreground image.
  \<open>sample_approxPolyDP\<close> raises for a negative tolerance, as OpenCV does, and otherwise
  does the first step of OpenCV's closed-curve approximation: when every point of the
  contour is within \<open>epsilon\<close> of the start point the contour collapses to that single
  point; any other contour is left as it is.
\<close>

definition sample_findContours :: "8 word list list \<Rightarrow> contour list" where
  "sample_findContours image8 =
     (if list_all (list_all (\<lambda>p. p = 0)) image8 then []
      else [[(0, 0), (0, int (length image8) - 1),
             (int (length (hd image8)) - 1, int (length image8) - 1),
             (int (length (hd image8)) - 1, 0)]])"

definition sample_approxPolyDP :: "contour \<Rightarrow> real \<Rightarrow> bool \<Rightarrow> py_error + contour" where
  "sample_approxPolyDP curve epsilon is_closed =
     (if epsilon < 0 then Inl (OtherException ''cv2.error'')
      else
        case curve of
          [] \<Rightarrow> Inr []
        | start # _ \<Rightarrow>
            if list_all (\<lambda>(x, y). real_of_int ((x - fst start)\<^sup>2 + (y - snd start)\<^sup>2) \<le> epsilon\<^sup>2) curve
            then Inr [start] else Inr curve)"

definition sample_cv :: cv2 where
  "sample_cv = \<lparr>findContours = sample_findContours, approxPolyDP = sample_approxPolyDP\<rparr>"

text \<open>
  The sample tensors are float32. A float32 holds every integer up to \<open>2^24\<close> and every
  second integer from there to \<open>2^25\<close>; the sample sum is the exact sum rounded to the
  nearest of these, ties to the even significand, which is what torch returns for the
  all-ones mask of 4097 x 4097 pixels. The sample conversions to arrays never raise.
\<close>

definition round_half_even :: "real \<Rightarrow> int" where
  "round_half_even x =
     (let f = \<lfloor>x\<rfloor>; d = x - of_int f
      in if d < 1 / 2 then f else if d > 1 / 2 then f + 1 else if even f then f else f + 1)"

definition sample_float32 :: "real \<Rightarrow> real" where
  "sample_float32 x = (if x \<le> 16777216 then x else 2 * of_int (round_half_even (x / 2)))"

definition sample_torch :: torch where
  "sample_torch =
     \<lparr>tensor_sum = (\<lambda>t. sample_float32 (sum_list (map sum_list t))),
      masks_numpy = Inr, boxes_numpy = Inr, scores_numpy = Inr\<rparr>"

definition mask_empty :: mask where
  "mask_empty = [[0, 0], [0, 0]]"

definition mask_2x2 :: mask where
  "mask_2x2 = [[1, 1], [1, 1]]"

definition mask_6x6 :: mask where
  "mask_6x6 = replicate 6 (replicate 6 1)"


text \<open>
  The sample decoder reads width and height from the first two bytes (6 pixels plus
  1000 per unit) and the mode from the third (0 for RGB, 1 for L, otherwise RGBA); the
  remaining bytes are the raster. An upload without raster bytes stands for a truncated
  file: its header opens, but its pixel data cannot be decoded, so \<open>convert\<close> and \<open>save\<close>
  raise \<open>OSError\<close>, as PIL does. The sample encoder refuses to write mode RGBA as JPEG,
  as PIL does. The two-image operations raise on a size mismatch; the drawing calls only
  record that they ran.
\<close>

definition sample_pil :: pil where
  "sample_pil =
     \<lparr>Image_open = (\<lambda>content. case content of
          w # h # m # rest \<Rightarrow>
            Inr \<lparr>im_mode = (if m = 0 then ''RGB'' else if m = 1 then ''L'' else ''RGBA''),
                 im_size = (6 + 1000 * unat w, 6 + 1000 * unat h),
                 im_data = map unat rest\<rparr>
        | _ \<Rightarrow> Inl (OtherException ''UnidentifiedImageError'')),
      Image_convert = (\<lambda>img m. if im_data img = [] then Inl (OtherException ''OSError'')
                                else Inr (img\<lparr>im_mode := m\<rparr>)),
      Image_save = (\<lambda>img format quality.
                      if im_data img = [] then Inl (OtherException ''OSError'')
                      else if format = ''JPEG'' \<and> im_mode img = ''RGBA'' then Inl (OtherException ''OSError'')
                      else Inr (map of_nat (length format # im_data img))),
      Image_fromarray = (\<lambda>a. \<lparr>im_mode = ''L'', im_size = (length (hd a), length a), im_data = map unat (concat a)\<rparr>),
      Image_new = (\<lambda>m sz color. \<lparr>im_mode = m, im_size = sz, im_data = map nat color\<rparr>),
      Image_point = (\<lambda>img f. img\<lparr>im_data := map (\<lambda>v. nat (f (int v))) (im_data img)\<rparr>),
      Image_putalpha = (\<lambda>overlay a. if im_size overlay = im_size a then Inr overlay
                                     else Inl (ValueError (LibraryValueError ''illegal image mode''))),
      Image_alpha_composite = (\<lambda>a b. if im_size a = im_size b then Inr (a\<lparr>im_data := im_data a @ [1]\<rparr>)
                                      else Inl (ValueError (LibraryValueError ''images do not match''))),
      ImageDraw_rectangle = (\<lambda>img box outline width. img\<lparr>im_data := im_data img @ [2]\<rparr>),
      ImageDraw_text = (\<lambda>img xy text_s fill. img\<lparr>im_data := im_data img @ [3]\<rparr>),
      get_cmap_resampled = (\<lambda>name n. Inr (\<lambda>i. [real i / real n, 0, 1 - real i / real n, 1])),
      format_2f = (\<lambda>x. ''0.90'')\<rparr>"

text \<open>
  The sample adapter finds, in every image, one object whose mask is \<open>mask_6x6\<close>.
\<close>

definition sample_detection :: seg_result where
  "sample_detection = \<lparr>r_scores = [9 / 10], r_boxes = [[0, 0, 5, 5]], r_masks = [mask_6x6]\<rparr>"

definition sample_sam3 :: "(processor_args, processor_args) sam3" where
  "sample_sam3 =
     \<lparr>processor = (\<lambda>args. Inr args),
      model = (\<lambda>inputs. Inr inputs),
      original_sizes = (\<lambda>inputs. case inputs of
          Text_prompt img _ \<Rightarrow> [im_size img]
        | Box_prompt img _ _ \<Rightarrow> [im_size img]
        | Batch_prompt imgs _ \<Rightarrow> map im_size imgs),
      post_process_instance_segmentation =
        (\<lambda>outputs threshold mask_threshold sizes. Inr (map (\<lambda>_. sample_detection) sizes))\<rparr>"

definition sample_env :: "(processor_args, processor_args) env" where
  "sample_env =
     \<lparr>torch_lib = sample_torch, cv_lib = sample_cv, pil_lib = sample_pil, sam3_lib = sample_sam3,
      json_loads_prompts = (\<lambda>s. if s = ''[]'' then Some []
                                else if s = ''[null]'' then Some [None]
                                else if s = ''[null, null]'' then Some [None, None]
                                else None),
      json_loads_boxes = (\<lambda>s. if s = ''[]'' then Some [] else None),
      perf_counter = (\<lambda>n. real n)\<rparr>"

text \<open>The same environment, except that encoding an image always raises.\<close>

definition sample_env_save_fails :: "(processor_args, processor_args) env" where
  "sample_env_save_fails =
     sample_env\<lparr>pil_lib := sample_pil\<lparr>Image_save := (\<lambda>img format quality. Inl (OtherException ''OSError''))\<rparr>\<rparr>"

text \<open>
  Uploads: a 6 x 6 RGB image, a 5006 x 6 RGB image, a payload of 10 MiB plus one byte,
  and a truncated 5006 x 6 image of mode L.
\<close>

definition upload_small :: upload_file where
  "upload_small = \<lparr>filename = ''small.png'', file_content = [0, 0, 0, 7]\<rparr>"


definition upload_heavy :: upload_file where
  "upload_heavy = \<lparr>filename = ''heavy.png'', file_content = replicate 10485761 0\<rparr>"


text \<open>
  The images that the sample decoder makes of \<open>upload_small\<close> and \<open>upload_truncated\<close>,
  a 6 x 6 image of mode RGBA, the settings with JPEG as the output format, the trace of
  a complete adapter run, and the batch item that the sample detection yields at a
  given index.
\<close>

definition image_6x6 :: pil_image where
  "image_6x6 = \<lparr>im_mode = ''RGB'', im_size = (6, 6), im_data = [7]\<rparr>"




definition adapter_trace :: "adapter_event list" where
  "adapter_trace = [Processor_called, Model_called, Post_process_called]"


section \<open>Vocabulary of the properties\<close>


definition binary_mask :: "mask \<Rightarrow> bool" where
  "binary_mask msk = list_all (list_all (\<lambda>v. v = 0 \<or> v = 1)) msk"

definition foreground_count :: "mask \<Rightarrow> nat" where
  "foreground_count msk = length (filter (\<lambda>v. v = 1) (concat msk))"

definition exact_sum :: "mask \<Rightarrow> real" where
  "exact_sum msk = sum_list (map sum_list msk)"

definition to_pairs :: "contour \<Rightarrow> polygon" where
  "to_pairs pts = map (\<lambda>(x, y). [x, y]) pts"


text \<open>
  What a single-image result's \<open>visualization_base64\<close> has to be: a non-empty text exactly
  when visualization was requested and an object was detected, and then the base64
  text of the bytes that PIL's encoder returned for the image that the compositor drew
  from the loaded upload; \<open>None\<close> otherwise.
\<close>

definition visualization_as_specified ::
  "settings \<Rightarrow> ('i, 'o) env \<Rightarrow> upload_file \<Rightarrow> bool \<Rightarrow> inference_result \<Rightarrow> bool" where
  "visualization_as_specified st env f rv r =
     (((\<exists>text_b64. visualization_base64 r = Some text_b64 \<and> text_b64 \<noteq> []) = (rv \<and> 0 < num_objects r)) \<and>
      (if rv \<and> 0 < num_objects r
       then (\<exists>img (res :: seg_result) viz_image bs.
               load_image_from_upload st (pil_lib env) f = Inr img \<and>
               num_objects r = length (r_scores res) \<and> boxes r = r_boxes res \<and> scores r = r_scores res \<and>
               draw_masks_and_boxes (torch_lib env) (pil_lib env) img (r_masks res) (r_boxes res)
                 (Some (r_scores res)) (1 / 2) ''rainbow'' True True = Inr viz_image \<and>
               Image_save (pil_lib env) viz_image
                 (if upper (VISUALIZATION_FORMAT st) = ''JPEG'' then ''JPEG'' else ''PNG'')
                 (if upper (VISUALIZATION_FORMAT st) = ''JPEG'' then Some (VISUALIZATION_QUALITY st) else None)
                 = Inr bs \<and>
               visualization_base64 r = Some (b64encode bs))
       else visualization_base64 r = None))"

section \<open>Polygons of a mask\<close>

lemma ensure_squeeze_cases:
  "ensure_list_of_lists (squeeze_tolist s) =
     (if s = [] then Inl IndexError
      else Inr (if length s = 1 then [[fst (hd s), snd (hd s)]] else to_pairs s))"
  by (cases s rule: squeeze_tolist.cases) (auto simp: to_pairs_def)

lemma contours_loop_Cons:
  "contours_loop cv eps (c # rest) acc =
     (if length c < 3 then contours_loop cv eps rest acc
      else case approxPolyDP cv c eps True of
             Inl e \<Rightarrow> Inl e
           | Inr s \<Rightarrow>
               (case ensure_list_of_lists (squeeze_tolist s) of
                  Inl e \<Rightarrow> Inl e
                | Inr poly \<Rightarrow> contours_loop cv eps rest (if 3 \<le> length poly then acc @ [poly] else acc)))"
  by (simp add: Let_def split: sum.split)

declare contours_loop.simps(2) [simp del]

lemma contours_loop_min3:
  "contours_loop cv eps cs acc = Inr ps \<Longrightarrow> \<forall>p\<in>set acc. 3 \<le> length p \<Longrightarrow> \<forall>p\<in>set ps. 3 \<le> length p"
proof (induction cs arbitrary: acc)
  case Nil
  then show ?case by simp
next
  case (Cons c cs)
  show ?case
  proof (cases "length c < 3")
    case True
    with Cons.prems have "contours_loop cv eps cs acc = Inr ps"
      by (simp only: contours_loop_Cons if_True)
    then show ?thesis using Cons.IH Cons.prems(2) by blast
  next
    case False
    with Cons.prems(1) obtain poly where
      run: "contours_loop cv eps cs (if 3 \<le> length poly then acc @ [poly] else acc) = Inr ps"
      by (simp only: contours_loop_Cons if_False split: sum.splits) auto
    have "\<forall>p\<in>set (if 3 \<le> length poly then acc @ [poly] else acc). 3 \<le> length p"
      using Cons.prems(2) by simp
    with run show ?thesis using Cons.IH by blast
  qed
qed

lemma contours_loop_append:
  "contours_loop cv eps (xs @ ys) acc =
     (case contours_loop cv eps xs acc of Inl e \<Rightarrow> Inl e | Inr acc' \<Rightarrow> contours_loop cv eps ys acc')"
proof (induction xs arbitrary: acc)
  case Nil
  show ?case by simp
next
  case (Cons c xs)
  show ?case
    by (simp add: contours_loop_Cons Cons.IH split: sum.split)
qed

lemma contours_loop_skip:
  assumes "3 \<le> length c"
      and "approxPolyDP cv c eps True = Inr s"
      and "length s = 1 \<or> length s = 2"
  shows "contours_loop cv eps (c # rest) acc = contours_loop cv eps rest acc"
proof -
  from assms(3) have ne: "s \<noteq> []" by auto
  have "length (if length s = 1 then [[fst (hd s), snd (hd s)]] else to_pairs s) < 3"
    using assms(3) by (auto simp: to_pairs_def)
  then show ?thesis
    using assms(1,2) ne by (simp add: contours_loop_Cons ensure_squeeze_cases)
qed

lemma contours_loop_origin:
  "contours_loop cv eps cs acc = Inr ps \<Longrightarrow> p \<in> set ps \<Longrightarrow>
     p \<in> set acc \<or>
     (\<exists>c\<in>set cs. \<exists>s. 3 \<le> length c \<and> approxPolyDP cv c eps True = Inr s \<and> p = to_pairs s)"
proof (induction cs arbitrary: acc)
  case Nil
  then show ?case by simp
next
  case (Cons c cs)
  show ?case
  proof (cases "length c < 3")
    case True
    with Cons.prems have "contours_loop cv eps cs acc = Inr ps"
      by (simp only: contours_loop_Cons if_True)
    from Cons.IH[OF this Cons.prems(2)] show ?thesis by auto
  next
    case False
    from False Cons.prems(1) obtain s poly where
      ap: "approxPolyDP cv c eps True = Inr s" and
      en: "ensure_list_of_lists (squeeze_tolist s) = Inr poly" and
      run: "contours_loop cv eps cs (if 3 \<le> length poly then acc @ [poly] else acc) = Inr ps"
      by (simp only: contours_loop_Cons if_False split: sum.splits) auto
    from en have poly: "3 \<le> length poly \<Longrightarrow> poly = to_pairs s"
      by (auto simp: ensure_squeeze_cases split: if_splits)
    from Cons.IH[OF run Cons.prems(2)] show ?thesis
      using False poly ap by (auto split: if_splits)
  qed
qed

text \<open>The sample library on the sample masks.\<close>

lemma astype_uint8_binary: "astype_uint8 255 = 255" "astype_uint8 0 = 0"
  by (simp_all add: astype_uint8_def trunc_def)

lemma sample_contours_6x6:
  "findContours sample_cv (mask_uint8 mask_6x6) = [[(0, 0), (0, 5), (5, 5), (5, 0)]]"
  by (simp add: sample_cv_def sample_findContours_def mask_uint8_def mask_6x6_def
      astype_uint8_binary list_all_iff)


lemma sample_contours_2x2:
  "findContours sample_cv (mask_uint8 mask_2x2) = [[(0, 0), (0, 1), (1, 1), (1, 0)]]"
  by (simp add: sample_cv_def sample_findContours_def mask_uint8_def mask_2x2_def astype_uint8_binary)

lemma sample_contours_empty: "findContours sample_cv (mask_uint8 mask_empty) = []"
  by (simp add: sample_cv_def sample_findContours_def mask_uint8_def mask_empty_def astype_uint8_binary)

lemma sample_approx_6x6:
  "approxPolyDP sample_cv [(0, 0), (0, 5), (5, 5), (5, 0)] (3 / 2) True = Inr [(0, 0), (0, 5), (5, 5), (5, 0)]"
  by (simp add: sample_cv_def sample_approxPolyDP_def power2_eq_square)


lemma sample_approx_2x2:
  "approxPolyDP sample_cv [(0, 0), (0, 1), (1, 1), (1, 0)] (3 / 2) True = Inr [(0, 0)]"
  by (simp add: sample_cv_def sample_approxPolyDP_def power2_eq_square)


lemma sample_polygons_6x6:
  "mask_to_polygons sample_cv mask_6x6 (3 / 2) = Inr [[[0, 0], [0, 5], [5, 5], [5, 0]]]"
  by (simp add: mask_to_polygons_def sample_contours_6x6 contours_loop_Cons sample_approx_6x6)



lemma sample_polygons_2x2: "mask_to_polygons sample_cv mask_2x2 (3 / 2) = Inr []"
  by (simp add: mask_to_polygons_def sample_contours_2x2 contours_loop_Cons sample_approx_2x2)

lemma sample_polygons_empty: "mask_to_polygons sample_cv mask_empty (3 / 2) = Inr []"
  by (simp add: mask_to_polygons_def sample_contours_empty)

text \<open>
  Claim C7. For every mask and every tolerance, every polygon in the list that
  \<open>mask_to_polygons\<close> returns has at least 3 vertices. This holds whatever OpenCV
  returns: the last test of the loop body admits no shorter polygon.
\<close>

theorem mask_to_polygons_at_least_3_vertices:
  "mask_to_polygons cv msk eps = Inr ps \<Longrightarrow> p \<in> set ps \<Longrightarrow> 3 \<le> length p"
  using contours_loop_min3[of cv eps "findContours cv (mask_uint8 msk)" "[]" ps]
  by (simp add: mask_to_polygons_def)

theorem mask_to_polygons_at_least_3_vertices_witness:
  "mask_to_polygons sample_cv mask_6x6 (3 / 2) = Inr [[[0, 0], [0, 5], [5, 5], [5, 0]]] \<and>
   3 \<le> length [[0, 0], [0, 5], [5, 5], [5, 0 :: int]]"
proof -
  have h: "mask_to_polygons sample_cv mask_6x6 (3 / 2) = Inr [[[0, 0], [0, 5], [5, 5], [5, 0]]]"
    by (rule sample_polygons_6x6)
  have "[[0, 0], [0, 5], [5, 5], [5, 0]] \<in> set [[[0, 0], [0, 5], [5, 5], [5, 0 :: int]]]" by simp
  from mask_to_polygons_at_least_3_vertices[OF h this] h show ?thesis by simp
qed

text \<open>
  Claim C2, as stated, fails. The contour of the 2 x 2 foreground mask has 4 points and
  lies within the tolerance 1.5 of its start point, so its approximation is a single
  vertex; the loop then appends nothing, and the region is missing from the output: the
  original contour is not kept in its place.
\<close>

theorem mask_to_polygons_keeps_original_counterexample:
  "findContours sample_cv (mask_uint8 mask_2x2) = [[(0, 0), (0, 1), (1, 1), (1, 0)]] \<and>
   length [(0, 0), (0, 1), (1, 1), (1, 0) :: point] = 4 \<and>
   approxPolyDP sample_cv [(0, 0), (0, 1), (1, 1), (1, 0)] (3 / 2) True = Inr [(0, 0)] \<and>
   mask_to_polygons sample_cv mask_2x2 (3 / 2) = Inr []"
  by (simp add: sample_contours_2x2 sample_approx_2x2 sample_polygons_2x2)

text \<open>
  Claim C2, amended. For every traced contour with at least 3 points whose approximation
  at the given tolerance has 1 or 2 vertices, \<open>mask_to_polygons\<close> emits nothing for that
  region: its output is the output for the remaining contours. Every polygon it does
  emit is the approximation of a traced contour with at least 3 points, never the
  unsimplified contour standing in for it.
\<close>

theorem mask_to_polygons_omits_collapsed:
  assumes "findContours cv (mask_uint8 msk) = before @ c # after"
      and "3 \<le> length c"
      and "approxPolyDP cv c eps True = Inr s"
      and "length s = 1 \<or> length s = 2"
  shows "mask_to_polygons cv msk eps = contours_loop cv eps (before @ after) [] \<and>
         (\<forall>ps p. mask_to_polygons cv msk eps = Inr ps \<and> p \<in> set ps \<longrightarrow>
            (\<exists>c'\<in>set (findContours cv (mask_uint8 msk)). \<exists>s'.
               3 \<le> length c' \<and> approxPolyDP cv c' eps True = Inr s' \<and> p = to_pairs s'))"
proof
  show "mask_to_polygons cv msk eps = contours_loop cv eps (before @ after) []"
    unfolding mask_to_polygons_def Let_def assms(1)
    by (simp add: contours_loop_append contours_loop_skip[OF assms(2,3,4)] split: sum.split)
next
  show "\<forall>ps p. mask_to_polygons cv msk eps = Inr ps \<and> p \<in> set ps \<longrightarrow>
            (\<exists>c'\<in>set (findContours cv (mask_uint8 msk)). \<exists>s'.
               3 \<le> length c' \<and> approxPolyDP cv c' eps True = Inr s' \<and> p = to_pairs s')"
    using contours_loop_origin[of cv eps "findContours cv (mask_uint8 msk)" "[]"]
    by (simp add: mask_to_polygons_def)
qed

theorem mask_to_polygons_omits_collapsed_witness:
  "mask_to_polygons sample_cv mask_2x2 (3 / 2) = contours_loop sample_cv (3 / 2) ([] @ []) []"
proof -
  have a: "findContours sample_cv (mask_uint8 mask_2x2) = [] @ [(0, 0), (0, 1), (1, 1), (1, 0)] # []"
    by (simp add: sample_contours_2x2)
  have b: "3 \<le> length [(0, 0), (0, 1), (1, 1), (1, 0) :: point]" by simp
  have c: "approxPolyDP sample_cv [(0, 0), (0, 1), (1, 1), (1, 0)] (3 / 2) True = Inr [(0, 0)]"
    by (rule sample_approx_2x2)
  have d: "length [(0, 0) :: point] = 1 \<or> length [(0, 0) :: point] = 2" by simp
  from mask_to_polygons_omits_collapsed[OF a b c d] show ?thesis by blast
qed

section \<open>Areas and polygons of a batch of masks\<close>












lemma foreground_count_ones: "foreground_count (replicate h (replicate w 1)) = h * w"
  by (induction h) (simp_all add: foreground_count_def)

lemma exact_sum_ones: "exact_sum (replicate h (replicate w 1)) = real h * real w"
  by (simp add: exact_sum_def sum_list_replicate)

lemma binary_mask_ones: "binary_mask (replicate h (replicate w 1))"
  by (simp add: binary_mask_def list_all_iff)


lemma mask_6x6_facts:
  "binary_mask mask_6x6" "foreground_count mask_6x6 = 36" "exact_sum mask_6x6 = 36"
  "tensor_sum sample_torch mask_6x6 = 36"
  using exact_sum_ones[of 6 6]
  by (simp_all add: mask_6x6_def binary_mask_ones foreground_count_ones sample_torch_def
      sample_float32_def exact_sum_def)







lemma sample_data_6x6:
  "masks_to_polygon_data sample_torch sample_cv [mask_6x6] (3 / 2) =
     Inr [\<lparr>polygons = [[[0, 0], [0, 5], [5, 5], [5, 0]]], area = 36\<rparr>]"
  by (simp add: masks_to_polygon_data_def sample_polygons_6x6 calculate_mask_area_def mask_6x6_facts)

section \<open>The compositor on zero objects\<close>

lemma upper_PNG: "upper ''PNG'' = ''PNG''"
  by (simp add: upper_def ascii_upper_def)


lemma default_format: "upper (VISUALIZATION_FORMAT default_settings) = ''PNG''"
  by (simp add: default_settings_def upper_PNG)


lemma sample_torch_numpy:
  "masks_numpy sample_torch m = Inr m" "boxes_numpy sample_torch b = Inr b"
  "scores_to_numpy sample_torch s = Inr s"
  by (simp_all add: sample_torch_def scores_to_numpy_def split: option.split)


lemma sample_save:
  "im_data img \<noteq> [] \<Longrightarrow> Image_save sample_pil img ''PNG'' None = Inr (map of_nat (3 # im_data img))"
  "im_data img \<noteq> [] \<Longrightarrow> im_mode img = ''RGBA'' \<Longrightarrow>
     Image_save sample_pil img ''JPEG'' q = Inl (OtherException ''OSError'')"
  by (simp_all add: sample_pil_def)




section \<open>Single-image requests\<close>

lemma b64encode_empty_iff: "b64encode bs = [] \<longleftrightarrow> bs = []"
  by (cases bs rule: b64encode.cases) (simp_all add: Let_def)

lemma create_visualization_Inr:
  "create_visualization st tor lib img masks_t boxes_t scores_t alpha db dm = Inr bs \<Longrightarrow>
     \<exists>viz_image.
       draw_masks_and_boxes tor lib img masks_t boxes_t scores_t alpha ''rainbow'' db dm = Inr viz_image \<and>
       Image_save lib viz_image
         (if upper (VISUALIZATION_FORMAT st) = ''JPEG'' then ''JPEG'' else ''PNG'')
         (if upper (VISUALIZATION_FORMAT st) = ''JPEG'' then Some (VISUALIZATION_QUALITY st) else None) = Inr bs"
  by (auto simp: create_visualization_def encode_image_to_bytes_def split: sum.splits if_splits)

lemma prepare_response_fields:
  assumes "prepare_response st env t0 img res rv = Inr r"
  shows "num_objects r = length (r_scores res)"
    and "boxes r = r_boxes res"
    and "scores r = r_scores res"
    and "\<not> (rv \<and> 0 < num_objects r) \<Longrightarrow> visualization_base64 r = None"
    and "rv \<and> 0 < num_objects r \<Longrightarrow>
           \<exists>bs. create_visualization st (torch_lib env) (pil_lib env) img (r_masks res) (r_boxes res)
                   (Some (r_scores res)) (1 / 2) True True = Inr bs \<and>
                visualization_base64 r = Some (b64encode bs)"
  using assms by (auto simp: prepare_response_def Let_def split: sum.splits if_splits)

lemma inference_text_Inr:
  "inference_text st env f prompt th mth rv = (Inr r, tr) \<Longrightarrow>
     \<exists>img res. load_image_from_upload st (pil_lib env) f = Inr img \<and>
       prepare_response st env (perf_counter env 0) img res rv = Inr r"
  by (auto simp: inference_text_def Let_def split: sum.splits prod.splits list.splits)

lemma inference_bbox_Inr:
  "inference_bbox st env f bbs labels th mth rv = (Inr r, tr) \<Longrightarrow>
     \<exists>img res. load_image_from_upload st (pil_lib env) f = Inr img \<and>
       prepare_response st env (perf_counter env 0) img res rv = Inr r"
  by (auto simp: inference_bbox_def Let_def split: sum.splits prod.splits list.splits)

lemma prepare_response_visualization:
  assumes enc: "\<forall>im fmt q bs. Image_save (pil_lib env) im fmt q = Inr bs \<longrightarrow> bs \<noteq> []"
      and load: "load_image_from_upload st (pil_lib env) f = Inr img"
      and run: "prepare_response st env t0 img res rv = Inr r"
  shows "visualization_as_specified st env f rv r"
proof (cases "rv \<and> 0 < num_objects r")
  case True
  from prepare_response_fields(5)[OF run True] obtain bs where
    cv: "create_visualization st (torch_lib env) (pil_lib env) img (r_masks res) (r_boxes res)
           (Some (r_scores res)) (1 / 2) True True = Inr bs" and
    field: "visualization_base64 r = Some (b64encode bs)" by blast
  from create_visualization_Inr[OF cv] obtain viz_image where
    draw: "draw_masks_and_boxes (torch_lib env) (pil_lib env) img (r_masks res) (r_boxes res)
             (Some (r_scores res)) (1 / 2) ''rainbow'' True True = Inr viz_image" and
    save: "Image_save (pil_lib env) viz_image
         (if upper (VISUALIZATION_FORMAT st) = ''JPEG'' then ''JPEG'' else ''PNG'')
         (if upper (VISUALIZATION_FORMAT st) = ''JPEG'' then Some (VISUALIZATION_QUALITY st) else None) = Inr bs"
    by blast
  from enc save have "bs \<noteq> []" by blast
  then have ne: "b64encode bs \<noteq> []" by (simp add: b64encode_empty_iff)
  have "\<exists>img (res :: seg_result) viz_image bs.
          load_image_from_upload st (pil_lib env) f = Inr img \<and>
          num_objects r = length (r_scores res) \<and> boxes r = r_boxes res \<and> scores r = r_scores res \<and>
          draw_masks_and_boxes (torch_lib env) (pil_lib env) img (r_masks res) (r_boxes res)
            (Some (r_scores res)) (1 / 2) ''rainbow'' True True = Inr viz_image \<and>
          Image_save (pil_lib env) viz_image
            (if upper (VISUALIZATION_FORMAT st) = ''JPEG'' then ''JPEG'' else ''PNG'')
            (if upper (VISUALIZATION_FORMAT st) = ''JPEG'' then Some (VISUALIZATION_QUALITY st) else None)
            = Inr bs \<and>
          visualization_base64 r = Some (b64encode bs)"
    using load prepare_response_fields(1,2,3)[OF run] draw save field by blast
  with True field ne show ?thesis
    by (simp add: visualization_as_specified_def)
next
  case False
  from prepare_response_fields(4)[OF run False] False show ?thesis
    by (simp add: visualization_as_specified_def)
qed

text \<open>
  Claim C5. For every single-image request that returns a result, by text prompt or by
  boxes, the field \<open>visualization_base64\<close> is a non-empty text if and only if
  visualization was requested and at least one object was detected; it is then the
  base64 text of the bytes that \<open>create_visualization\<close> produced, namely the encoding
  of the image that the compositor drew from the loaded upload and the adapter's masks,
  boxes and scores; in all other cases the field is \<open>None\<close>. PIL's encoder, when it
  returns, returns at least one byte.
\<close>

theorem visualization_present_iff:
  assumes "\<forall>im fmt q bs. Image_save (pil_lib env) im fmt q = Inr bs \<longrightarrow> bs \<noteq> []"
  shows "(inference_text st env f prompt th mth rv = (Inr r, tr) \<longrightarrow>
            visualization_as_specified st env f rv r) \<and>
         (inference_bbox st env f bbs labels th mth rv = (Inr r', tr') \<longrightarrow>
            visualization_as_specified st env f rv r')"
  using inference_text_Inr[of st env f prompt th mth rv r tr]
        inference_bbox_Inr[of st env f bbs labels th mth rv r' tr']
        prepare_response_visualization[OF assms]
  by blast

text \<open>The sample environment on \<open>upload_small\<close>, visualization requested.\<close>

lemma sample_env_fields:
  "torch_lib sample_env = sample_torch" "cv_lib sample_env = sample_cv" "pil_lib sample_env = sample_pil"
  "sam3_lib sample_env = sample_sam3" "perf_counter sample_env n = real n"
  "json_loads_prompts sample_env ''[]'' = Some []"
  by (simp_all add: sample_env_def)

lemma sample_open_small:
  "Image_open sample_pil (file_content upload_small) = Inr image_6x6"
  by (simp add: sample_pil_def upload_small_def image_6x6_def)

lemma load_small: "load_image_from_upload default_settings sample_pil upload_small = Inr image_6x6"
  by (simp add: load_image_from_upload_def default_settings_def sample_pil_def upload_small_def
      convert_to_rgb_def image_6x6_def)

lemma sample_adapter_text:
  "run_adapter sample_sam3 (Text_prompt img prompt) th mth = (Inr [sample_detection], adapter_trace)"
  by (simp add: run_adapter_def sample_sam3_def adapter_trace_def)

lemma sample_adapter_bbox:
  "run_adapter sample_sam3 (Box_prompt img bbs labels) th mth = (Inr [sample_detection], adapter_trace)"
  by (simp add: run_adapter_def sample_sam3_def adapter_trace_def)

lemma sample_draw:
  "draw_masks_and_boxes sample_torch sample_pil image_6x6 [mask_6x6] [[0, 0, 5, 5]] (Some [9 / 10]) (1 / 2)
     ''rainbow'' True True = Inr \<lparr>im_mode = ''RGB'', im_size = (6, 6), im_data = [7, 1, 2, 3]\<rparr>"
  by (simp add: draw_masks_and_boxes_def sample_torch_numpy sample_pil_def image_6x6_def mask_6x6_def
      mask_uint8_def)

lemma sample_visualization:
  "create_visualization default_settings sample_torch sample_pil image_6x6 [mask_6x6] [[0, 0, 5, 5]]
     (Some [9 / 10]) (1 / 2) True True = Inr [3, 7, 1, 2, 3]"
  by (simp add: create_visualization_def sample_draw encode_image_to_bytes_def default_format sample_save)

lemma sample_b64: "b64encode [3, 7, 1, 2, 3] = ''AwcBAgM=''"
  by (simp add: b64_char_def Let_def)

lemma py_round_1000: "py_round 1000 2 = 1000"
  by (simp add: py_round_def)

lemma sample_prepare_response:
  "prepare_response default_settings sample_env 0 image_6x6 sample_detection True =
     Inr \<lparr>num_objects = 1, boxes = [[0, 0, 5, 5]], scores = [9 / 10],
          masks = [\<lparr>polygons = [[[0, 0], [0, 5], [5, 5], [5, 0]]], area = 36\<rparr>],
          visualization_base64 = Some ''AwcBAgM='', processing_time_ms = 1000\<rparr>"
  by (simp add: prepare_response_def sample_env_fields sample_detection_def sample_data_6x6
      sample_visualization py_round_1000 sample_b64 del: b64encode.simps)

lemma sample_inference_text:
  "inference_text default_settings sample_env upload_small ''cat'' (1 / 2) (1 / 2) True =
     (Inr \<lparr>num_objects = 1, boxes = [[0, 0, 5, 5]], scores = [9 / 10],
           masks = [\<lparr>polygons = [[[0, 0], [0, 5], [5, 5], [5, 0]]], area = 36\<rparr>],
           visualization_base64 = Some ''AwcBAgM='', processing_time_ms = 1000\<rparr>,
      adapter_trace)"
  by (simp add: inference_text_def sample_env_fields load_small sample_adapter_text sample_prepare_response)

lemma sample_inference_bbox:
  "inference_bbox default_settings sample_env upload_small [[0, 0, 5, 5]] [1] (1 / 2) (1 / 2) True =
     (Inr \<lparr>num_objects = 1, boxes = [[0, 0, 5, 5]], scores = [9 / 10],
           masks = [\<lparr>polygons = [[[0, 0], [0, 5], [5, 5], [5, 0]]], area = 36\<rparr>],
           visualization_base64 = Some ''AwcBAgM='', processing_time_ms = 1000\<rparr>,
      adapter_trace)"
  by (simp add: inference_bbox_def sample_env_fields load_small sample_adapter_bbox sample_prepare_response)

lemma sample_save_nonempty:
  "\<forall>im fmt q bs. Image_save (pil_lib sample_env) im fmt q = Inr bs \<longrightarrow> bs \<noteq> []"
  by (auto simp: sample_env_fields sample_pil_def split: if_splits)

theorem visualization_present_iff_witness:
  "(\<exists>r tr. inference_text default_settings sample_env upload_small ''cat'' (1 / 2) (1 / 2) True = (Inr r, tr) \<and>
      (\<exists>text_b64. visualization_base64 r = Some text_b64 \<and> text_b64 \<noteq> []) \<and> 0 < num_objects r) \<and>
   (\<exists>r tr. inference_bbox default_settings sample_env upload_small [[0, 0, 5, 5]] [1] (1 / 2) (1 / 2) True
              = (Inr r, tr) \<and>
      (\<exists>text_b64. visualization_base64 r = Some text_b64 \<and> text_b64 \<noteq> []) \<and> 0 < num_objects r)"
proof -
  let ?r = "\<lparr>num_objects = 1, boxes = [[0, 0, 5, 5]], scores = [9 / 10],
           masks = [\<lparr>polygons = [[[0, 0], [0, 5], [5, 5], [5, 0]]], area = 36\<rparr>],
           visualization_base64 = Some ''AwcBAgM='', processing_time_ms = 1000\<rparr>"
  from visualization_present_iff[OF sample_save_nonempty, of default_settings upload_small "''cat''"
      "1 / 2" "1 / 2" True ?r adapter_trace "[[0, 0, 5, 5]]" "[1]" ?r adapter_trace]
    sample_inference_text sample_inference_bbox
  have spec: "visualization_as_specified default_settings sample_env upload_small True ?r" by blast
  have pos: "0 < num_objects ?r" by simp
  with spec have ne: "\<exists>text_b64. visualization_base64 ?r = Some text_b64 \<and> text_b64 \<noteq> []"
    unfolding visualization_as_specified_def by (elim conjE) simp
  have "\<exists>r tr. inference_text default_settings sample_env upload_small ''cat'' (1 / 2) (1 / 2) True = (Inr r, tr) \<and>
      (\<exists>text_b64. visualization_base64 r = Some text_b64 \<and> text_b64 \<noteq> []) \<and> 0 < num_objects r"
    using sample_inference_text ne pos by (intro exI[of _ ?r] exI[of _ adapter_trace] conjI)
  moreover
  have "\<exists>r tr. inference_bbox default_settings sample_env upload_small [[0, 0, 5, 5]] [1] (1 / 2) (1 / 2) True
              = (Inr r, tr) \<and>
      (\<exists>text_b64. visualization_base64 r = Some text_b64 \<and> text_b64 \<noteq> []) \<and> 0 < num_objects r"
    using sample_inference_bbox ne pos by (intro exI[of _ ?r] exI[of _ adapter_trace] conjI)
  ultimately show ?thesis by (rule conjI)
qed

text \<open>The same request when the encoder raises.\<close>

lemma sample_env_save_fails_fields:
  "torch_lib sample_env_save_fails = sample_torch"
  "cv_lib sample_env_save_fails = sample_cv"
  "sam3_lib sample_env_save_fails = sample_sam3"
  "perf_counter sample_env_save_fails n = real n"
  "pil_lib sample_env_save_fails = sample_pil\<lparr>Image_save := (\<lambda>img format quality. Inl (OtherException ''OSError''))\<rparr>"
  by (simp_all add: sample_env_save_fails_def sample_env_def)

lemma load_small_save_fails:
  "load_image_from_upload default_settings (pil_lib sample_env_save_fails) upload_small = Inr image_6x6"
  by (simp add: sample_env_save_fails_fields load_image_from_upload_def default_settings_def sample_pil_def
      upload_small_def convert_to_rgb_def image_6x6_def)

lemma sample_visualization_fails:
  "create_visualization default_settings sample_torch (pil_lib sample_env_save_fails) image_6x6 [mask_6x6]
     [[0, 0, 5, 5]] (Some [9 / 10]) (1 / 2) True True = Inl (OtherException ''OSError'')"
  by (simp add: create_visualization_def draw_masks_and_boxes_def sample_env_save_fails_fields
      sample_torch_numpy sample_pil_def image_6x6_def mask_6x6_def mask_uint8_def encode_image_to_bytes_def)

text \<open>
  Claim C3, as stated, fails. With visualization requested, one object detected and an
  encoder that raises, \<open>inference_text\<close> returns no geometry: the exception leaves the
  function, and the endpoint answers 500.
\<close>

theorem visualization_failure_recovered_counterexample:
  "inference_text default_settings sample_env_save_fails upload_small ''cat'' (1 / 2) (1 / 2) True =
     (Inl (OtherException ''OSError''), [Processor_called, Model_called, Post_process_called]) \<and>
   router_inference_text default_settings sample_env_save_fails upload_small ''cat'' (1 / 2) (1 / 2) True =
     (HTTPException 500 (Fixed_text ''Inference failed''), [Processor_called, Model_called, Post_process_called])"
  by (simp add: router_inference_text_def inference_text_def prepare_response_def load_small_save_fails
      sample_env_save_fails_fields(1,2,3,4) sample_adapter_text sample_detection_def sample_data_6x6
      sample_visualization_fails adapter_trace_def)

lemma prepare_response_viz_fails:
  assumes "masks_to_polygon_data (torch_lib env) (cv_lib env) (r_masks res) (3 / 2) = Inr mp"
      and "0 < length (r_scores res)"
      and "create_visualization st (torch_lib env) (pil_lib env) img (r_masks res) (r_boxes res)
             (Some (r_scores res)) (1 / 2) True True = Inl e"
  shows "prepare_response st env t0 img res True = Inl e"
  using assms by (simp add: prepare_response_def Let_def)

text \<open>
  Claim C3, amended. For every single-image request where visualization was requested,
  at least one object was detected and the visualization step raises, the operation
  raises that same failure after the adapter has run: no geometry is returned, and the
  text endpoint answers with an HTTP error (400 for a \<open>ValueError\<close>, 500 otherwise).
  Nothing in \<open>inference_text\<close> or \<open>inference_bbox\<close> catches an exception.
\<close>

theorem visualization_failure_propagates:
  assumes "load_image_from_upload st (pil_lib env) f = Inr img"
      and "masks_to_polygon_data (torch_lib env) (cv_lib env) (r_masks res) (3 / 2) = Inr mp"
      and "0 < length (r_scores res)"
      and "create_visualization st (torch_lib env) (pil_lib env) img (r_masks res) (r_boxes res)
             (Some (r_scores res)) (1 / 2) True True = Inl e"
  shows "(run_adapter (sam3_lib env) (Text_prompt img prompt) th mth = (Inr (res # others), tr) \<longrightarrow>
            inference_text st env f prompt th mth True = (Inl e, tr) \<and>
            router_inference_text st env f prompt th mth True = (except_clauses ''Inference failed'' e, tr)) \<and>
         (run_adapter (sam3_lib env) (Box_prompt img [bbs] [labels]) th mth = (Inr (res # others), tr) \<longrightarrow>
            inference_bbox st env f bbs labels th mth True = (Inl e, tr))"
  using assms(1) prepare_response_viz_fails[OF assms(2,3,4)]
  by (simp add: inference_text_def inference_bbox_def router_inference_text_def Let_def)

theorem visualization_failure_propagates_witness:
  "inference_text default_settings sample_env_save_fails upload_small ''cat'' (1 / 2) (1 / 2) True =
     (Inl (OtherException ''OSError''), adapter_trace) \<and>
   router_inference_text default_settings sample_env_save_fails upload_small ''cat'' (1 / 2) (1 / 2) True =
     (HTTPException 500 (Fixed_text ''Inference failed''), adapter_trace)"
proof -
  have a: "masks_to_polygon_data (torch_lib sample_env_save_fails) (cv_lib sample_env_save_fails)
             (r_masks sample_detection) (3 / 2) =
             Inr [\<lparr>polygons = [[[0, 0], [0, 5], [5, 5], [5, 0]]], area = 36\<rparr>]"
    by (simp add: sample_env_save_fails_fields(1,2) sample_detection_def sample_data_6x6)
  have b: "0 < length (r_scores sample_detection)" by (simp add: sample_detection_def)
  have c: "create_visualization default_settings (torch_lib sample_env_save_fails)
             (pil_lib sample_env_save_fails) image_6x6
             (r_masks sample_detection) (r_boxes sample_detection) (Some (r_scores sample_detection))
             (1 / 2) True True = Inl (OtherException ''OSError'')"
    by (simp add: sample_detection_def sample_env_save_fails_fields(1) sample_visualization_fails)
  have d: "run_adapter (sam3_lib sample_env_save_fails) (Text_prompt image_6x6 ''cat'') (1 / 2) (1 / 2) =
             (Inr (sample_detection # []), adapter_trace)"
    by (simp add: sample_env_save_fails_fields(3) sample_adapter_text)
  from visualization_failure_propagates[OF load_small_save_fails a b c] d show ?thesis by simp
qed




lemma load_heavy:
  "load_image_from_upload default_settings sample_pil upload_heavy =
     Inl (ValueError (ImageSizeExceeds (10485761 / 1048576) 10))"
  by (simp add: load_image_from_upload_def default_settings_def upload_heavy_def)






section \<open>Batch requests\<close>

lemma sample_adapter_batch:
  "run_adapter sample_sam3 (Batch_prompt imgs prompts) th mth =
     (Inr (map (\<lambda>_. sample_detection) imgs), adapter_trace)"
  by (simp add: run_adapter_def sample_sam3_def adapter_trace_def comp_def)

text \<open>
  Claim C10, as stated, fails. The endpoint declares its image list as required, so a
  batch request with zero images and the prompt list \<open>[]\<close> is answered 422, a
  validation error, before the body of the handler runs: \<open>inference_batch\<close> is not
  called and no division takes place.
\<close>

theorem empty_batch_validation_passes_counterexample:
  "router_inference_batch default_settings sample_env [] ''[]'' (1 / 2) (1 / 2) False =
     (Validation_error_response 422 ''Request validation failed'', [])"
  by (simp add: router_inference_batch_def)

text \<open>
  Claim C10, amended. A batch request with zero images is answered 422 by the endpoint,
  with no adapter call. \<open>inference_batch\<close> itself, called with zero images, never
  returns a result: it raises the batch-size \<open>ValueError\<close> if the maximum batch size is
  negative; otherwise it calls the adapter on the empty batch, and raises the adapter's
  error if the adapter raises, and \<open>ZeroDivisionError\<close>, from the average time per
  image, if the adapter returns.
\<close>

theorem empty_batch_no_result:
  "router_inference_batch st env [] text_prompts th mth rv =
     (Validation_error_response 422 ''Request validation failed'', []) \<and>
   inference_batch st env [] prompts th mth rv =
     (if MAX_BATCH_SIZE st < 0 then (Inl (ValueError (BatchSizeExceeds 0 (MAX_BATCH_SIZE st))), [])
      else case run_adapter (sam3_lib env) (Batch_prompt [] prompts) th mth of
             (Inl e, tr) \<Rightarrow> (Inl e, tr)
           | (Inr rs, tr) \<Rightarrow> (Inl ZeroDivisionError, tr)) \<and>
   (\<nexists>resp tr. inference_batch st env [] prompts th mth rv = (Inr resp, tr))"
  by (simp add: inference_batch_def router_inference_batch_def Let_def split: prod.split sum.split)

theorem empty_batch_no_result_witness:
  "router_inference_batch default_settings sample_env [] ''[]'' (1 / 2) (1 / 2) False =
     (Validation_error_response 422 ''Request validation failed'', []) \<and>
   inference_batch default_settings sample_env [] [] (1 / 2) (1 / 2) False =
     (Inl ZeroDivisionError, adapter_trace)"
  using empty_batch_no_result[of default_settings sample_env "''[]''" "1 / 2" "1 / 2" False "[]"]
  by (simp add: default_settings_def sample_env_fields sample_adapter_batch)











end
